theory Spec2Isabelle
  imports Complex_Main "HOL-Library.Char_ord" "HOL-Library.List_Lexorder" "HOL-Library.Multiset"
begin

text \<open>
  A model of \<^verbatim>\<open>.github/scripts/validate-kata-deploy-options.py\<close>, the script that
  checks that every option of the upstream kata-deploy chart is mentioned in the
  documentation of this chart: the values it loads from YAML, the extraction of options,
  the regular expressions it searches with, the documentation check, the report and the
  coordinator \<^verbatim>\<open>main\<close>. Exceptions and \<^verbatim>\<open>sys.exit\<close> are results, what is printed
  and written is a trace, and what the script reads from outside is a record handed to it.
\<close>

section \<open>Values loaded from YAML\<close>

text \<open>
  \<^verbatim>\<open>yaml.safe_load\<close> yields \<^verbatim>\<open>None\<close>, booleans, integers, floats, strings, lists
  and dicts (and, for the tagged scalars, dates, timestamps, bytes and sets). A dict is
  kept as the list of its items in insertion order, which is the order
  \<^verbatim>\<open>data.items()\<close> enumerates. The keys of a mapping are strings, as the
  configuration trees of a chart's values file are.
\<close>

datatype yaml =
    YNone
  | YBool bool
  | YInt int
  | YFloat real
  | YStr string
  | YDate string
  | YDatetime string
  | YBytes string
  | YList "yaml list"
  | YSet "yaml list"
  | YDict "(string \<times> yaml) list"

text \<open>\<^verbatim>\<open>isinstance(v, dict)\<close>\<close>

fun is_dict :: "yaml \<Rightarrow> bool" where
  "is_dict (YDict items) = True"
| "is_dict v = False"

text \<open>\<^verbatim>\<open>type(v).__name__\<close>\<close>

fun type_name :: "yaml \<Rightarrow> string" where
  "type_name YNone = ''NoneType''"
| "type_name (YBool b) = ''bool''"
| "type_name (YInt i) = ''int''"
| "type_name (YFloat x) = ''float''"
| "type_name (YStr s) = ''str''"
| "type_name (YDate s) = ''date''"
| "type_name (YDatetime s) = ''datetime''"
| "type_name (YBytes s) = ''bytes''"
| "type_name (YList xs) = ''list''"
| "type_name (YSet xs) = ''set''"
| "type_name (YDict items) = ''dict''"

text \<open>\<^verbatim>\<open>s.startswith(p)\<close>\<close>

definition startswith :: "string \<Rightarrow> string \<Rightarrow> bool" where
  "startswith s p = (take (length p) s = p)"

section \<open>The data model\<close>

text \<open>
  The dataclass \<^verbatim>\<open>ConfigOption\<close>. The fields \<^verbatim>\<open>type\<close> and \<^verbatim>\<open>default\<close> are
  \<open>otype\<close> and \<open>odefault\<close> here.
\<close>

record ConfigOption =
  name :: string
  path :: string
  otype :: string
  odefault :: yaml
  description :: string
  documented_in :: "string set"

section \<open>Option extraction\<close>

text \<open>
  The nested function \<^verbatim>\<open>extract_options\<close> of \<^verbatim>\<open>parse_kata_deploy_values\<close>. It
  appends to the list \<^verbatim>\<open>options\<close> of the enclosing function and reads its
  \<^verbatim>\<open>exclude_options\<close>; both are arguments here, and the list is returned.
  \<open>extract_items\<close> is the \<^verbatim>\<open>for key, value in data.items()\<close> loop.
\<close>

function extract_options :: "string list \<Rightarrow> yaml \<Rightarrow> string \<Rightarrow> ConfigOption list \<Rightarrow> ConfigOption list"
  and extract_items :: "string list \<Rightarrow> (string \<times> yaml) list \<Rightarrow> string \<Rightarrow> ConfigOption list \<Rightarrow> ConfigOption list"
where
  "extract_options exclude_options data parent_path options =
     (case data of
        YDict items \<Rightarrow> extract_items exclude_options items parent_path options
      | _ \<Rightarrow> options)"
| "extract_items exclude_options [] parent_path options = options"
| "extract_items exclude_options ((key, value) # rest) parent_path options =
     (let current_path = (if parent_path \<noteq> [] then parent_path @ ''.'' @ key else key) in
      if startswith key ''_'' then
        extract_items exclude_options rest parent_path options
      else if current_path \<in> set exclude_options then
        extract_items exclude_options rest parent_path options
      else
        (let option_type = type_name value in
         if is_dict value then
           extract_items exclude_options rest parent_path
             (extract_options exclude_options value current_path options)
         else
           extract_items exclude_options rest parent_path
             (options @ [\<lparr>name = key, path = current_path, otype = option_type,
                          odefault = value, description = '''', documented_in = {}\<rparr>])))"
  by pat_completeness auto
termination
  by (relation "measure (\<lambda>x. case x of
         Inl (e, data, p, os) \<Rightarrow> 2 * size data
       | Inr (e, items, p, os) \<Rightarrow> 2 * size_list (size_prod (\<lambda>k. 0) size) items + 1)") auto

section \<open>Regular expressions\<close>

text \<open>
  The patterns the script hands to \<^verbatim>\<open>re.search\<close> are sequences of single
  characters, each taken once, optionally (\<^verbatim>\<open>?\<close>) or any number of times
  (\<^verbatim>\<open>*\<close>): a literal character, \<^verbatim>\<open>.\<close>, \<^verbatim>\<open>\s\<close> or a negated
  character (\<^verbatim>\<open>[^|]\<close>). Every search is made with \<^verbatim>\<open>re.IGNORECASE\<close>, so a
  literal matches in either case. Text is ASCII: \<open>lower\<close> folds the letters A to Z, and
  \<^verbatim>\<open>\s\<close> is the ASCII white space of \<^verbatim>\<open>str.isspace\<close>.
\<close>

datatype atom = Chr char | Dot | Space | NotChr char

datatype piece = One atom | Opt atom | Many atom

type_synonym regex = "piece list"

definition lower :: "char \<Rightarrow> char" where
  "lower c =
     (case map_of (zip ''ABCDEFGHIJKLMNOPQRSTUVWXYZ'' ''abcdefghijklmnopqrstuvwxyz'') c of
        Some l \<Rightarrow> l
      | None \<Rightarrow> c)"

definition is_space :: "char \<Rightarrow> bool" where
  "is_space c = (c \<in> set [CHR 0x09, CHR 0x0A, CHR 0x0B, CHR 0x0C, CHR 0x0D,
                            CHR 0x1C, CHR 0x1D, CHR 0x1E, CHR 0x1F, CHR 0x20])"

fun atom_matches :: "atom \<Rightarrow> char \<Rightarrow> bool" where
  "atom_matches (Chr a) c = (lower a = lower c)"
| "atom_matches Dot c = (c \<noteq> CHR 0x0A)"
| "atom_matches Space c = is_space c"
| "atom_matches (NotChr a) c = (lower a \<noteq> lower c)"

text \<open>
  The backtracking matcher, anchored at the start of the text: the texts left after each
  way the pattern can match, in the order the engine tries them (a quantifier takes the
  character first and gives it back afterwards).
\<close>

fun match_rests :: "regex \<Rightarrow> string \<Rightarrow> string list" where
  "match_rests [] s = [s]"
| "match_rests (One a # ps) [] = []"
| "match_rests (One a # ps) (c # cs) = (if atom_matches a c then match_rests ps cs else [])"
| "match_rests (Opt a # ps) [] = match_rests ps []"
| "match_rests (Opt a # ps) (c # cs) =
     (if atom_matches a c then match_rests ps cs else []) @ match_rests ps (c # cs)"
| "match_rests (Many a # ps) [] = match_rests ps []"
| "match_rests (Many a # ps) (c # cs) =
     (if atom_matches a c then match_rests (Many a # ps) cs else []) @ match_rests ps (c # cs)"

text \<open>\<^verbatim>\<open>re.search(r, s, re.IGNORECASE)\<close>, read as a truth value.\<close>

fun re_search :: "regex \<Rightarrow> string \<Rightarrow> bool" where
  "re_search r [] = (match_rests r [] \<noteq> [])"
| "re_search r (c # cs) = (if match_rests r (c # cs) \<noteq> [] then True else re_search r cs)"

text \<open>
  \<^verbatim>\<open>re.search(pre (grp) post, s, re.IGNORECASE).group(1)\<close>: the leftmost match, and
  at that position the first one in backtracking order.
\<close>

fun first_some :: "('a \<Rightarrow> 'b option) \<Rightarrow> 'a list \<Rightarrow> 'b option" where
  "first_some f [] = None"
| "first_some f (x # xs) = (case f x of Some y \<Rightarrow> Some y | None \<Rightarrow> first_some f xs)"

definition match_group :: "regex \<Rightarrow> regex \<Rightarrow> regex \<Rightarrow> string \<Rightarrow> string option" where
  "match_group pre grp post s =
     first_some (\<lambda>r1.
       first_some (\<lambda>r2.
         if match_rests post r2 \<noteq> [] then Some (take (length r1 - length r2) r1) else None)
       (match_rests grp r1))
     (match_rests pre s)"

fun search_group :: "regex \<Rightarrow> regex \<Rightarrow> regex \<Rightarrow> string \<Rightarrow> string option" where
  "search_group pre grp post [] = match_group pre grp post []"
| "search_group pre grp post (c # cs) =
     (case match_group pre grp post (c # cs) of
        Some g \<Rightarrow> Some g
      | None \<Rightarrow> search_group pre grp post cs)"

text \<open>\<^verbatim>\<open>re.escape(s)\<close>: the pattern that matches \<open>s\<close> literally.\<close>

definition re_escape :: "string \<Rightarrow> regex" where
  "re_escape s = map (\<lambda>c. One (Chr c)) s"

text \<open>\<^verbatim>\<open>s.strip()\<close>\<close>

definition strip :: "string \<Rightarrow> string" where
  "strip s = rev (dropWhile is_space (rev (dropWhile is_space s)))"

section \<open>Errors, files and the trace of a run\<close>

datatype py_error = ZeroDivisionError | AttributeError | TypeError | YAMLError

text \<open>A YAML file: absent, present but not parsable, or loaded.\<close>

datatype yaml_file = Missing | Malformed | Loaded yaml

datatype http_result = HttpException | HttpResponse nat string

text \<open>
  What the run finds outside itself: \<^verbatim>\<open>Chart.yaml\<close> of the working directory, the
  upstream chart's \<^verbatim>\<open>values.yaml\<close> and \<^verbatim>\<open>README.md\<close>, the text of our values
  file and of each documentation file (\<open>None\<close> when the file does not exist), whether
  \<^verbatim>\<open>requests\<close> could be imported, what fetching the reference for a version
  returns, and the modification time of \<^verbatim>\<open>/tmp\<close> as it is printed.
\<close>

record world =
  chart_yaml :: yaml_file
  values_file :: yaml_file
  readme_file :: "string option"
  our_values :: "string option"
  doc_files :: "string option list"
  has_requests :: bool
  http_get :: "yaml \<Rightarrow> http_result"
  tmp_mtime :: string

text \<open>
  The report is kept as the sequence of its parts, each standing for the literal text of
  its lines with the values it interpolates. The coverage is the exact quotient; its
  rendering to one decimal place is not modelled.
\<close>

datatype default_cell = NotAvailable | Str50 yaml

datatype block =
    GithubSummary yaml string nat nat rat
  | MissingHeader
  | MissingRow string string default_cell string
  | ActionRequired string
  | AllDocumented
  | DocumentedHeader nat
  | DocumentedRow string string
  | DetailsEnd
  | TextTitle
  | TextRule
  | TextVersion yaml
  | TextDocumented nat
  | TextUndocumented nat
  | TextCoverage rat
  | TextMissing
  | TextMissingRule
  | TextOption string string
  | TextDefault yaml
  | TextDescription string

type_synonym report = "block list"

text \<open>What the run prints and writes, in order.\<close>

datatype event =
    PrintFetchWarning
  | PrintValuesNotFound
  | PrintFetching yaml
  | PrintValidating yaml
  | PrintParsing
  | PrintExcluding "string list"
  | PrintFound nat
  | PrintChecking string
  | PrintReport report
  | WriteReport report
  | PrintSaved
  | PrintFailed nat
  | PrintPassed

text \<open>
  How a run ends: \<^verbatim>\<open>sys.exit(n)\<close>, an exception nobody catches, or the end of
  \<^verbatim>\<open>main\<close>. The interpreter turns an uncaught exception into status 1 and a
  normal return into status 0.
\<close>

datatype outcome = Exit nat | Raised py_error | Finished

fun process_status :: "outcome \<Rightarrow> nat" where
  "process_status (Exit n) = n"
| "process_status (Raised e) = 1"
| "process_status Finished = 0"

text \<open>The truth value of a Python object, as \<^verbatim>\<open>if v:\<close> reads it.\<close>

fun truthy :: "yaml \<Rightarrow> bool" where
  "truthy YNone = False"
| "truthy (YBool b) = b"
| "truthy (YInt i) = (i \<noteq> 0)"
| "truthy (YFloat x) = (x \<noteq> 0)"
| "truthy (YStr s) = (s \<noteq> [])"
| "truthy (YDate s) = True"
| "truthy (YDatetime s) = True"
| "truthy (YBytes s) = (s \<noteq> [])"
| "truthy (YList xs) = (xs \<noteq> [])"
| "truthy (YSet xs) = (xs \<noteq> [])"
| "truthy (YDict items) = (items \<noteq> [])"

section \<open>Parsing the upstream chart\<close>

definition fetch_github_readme :: "world \<Rightarrow> yaml \<Rightarrow> event list \<times> string option" where
  "fetch_github_readme w version =
     (if \<not> has_requests w then ([], None)
      else
        (case http_get w version of
           HttpException \<Rightarrow> ([PrintFetchWarning], None)
         | HttpResponse status_code text \<Rightarrow>
             if status_code = 200 then ([], Some text) else ([], None)))"

text \<open>
  The pattern of line 138, split at its group:
  \<^verbatim>\<open>\|\s*`?PATH`?\s*\|\<close>, then \<^verbatim>\<open>([^|]+)\<close>, then \<^verbatim>\<open>\|\<close>.
\<close>

definition description_pre :: "string \<Rightarrow> regex" where
  "description_pre p =
     [One (Chr CHR ''|''), Many Space, Opt (Chr CHR 0x60)] @ re_escape p @
     [Opt (Chr CHR 0x60), Many Space, One (Chr CHR ''|'')]"

definition description_grp :: regex where
  "description_grp = [One (NotChr CHR ''|''), Many (NotChr CHR ''|'')]"

definition description_post :: regex where
  "description_post = [One (Chr CHR ''|'')]"

fun extract_descriptions :: "string \<Rightarrow> ConfigOption list \<Rightarrow> ConfigOption list" where
  "extract_descriptions readme_content [] = []"
| "extract_descriptions readme_content (option # options) =
     (case search_group (description_pre (path option)) description_grp description_post
             readme_content of
        Some g \<Rightarrow> option\<lparr>description := strip g\<rparr>
      | None \<Rightarrow> option)
     # extract_descriptions readme_content options"

text \<open>
  \<^verbatim>\<open>parse_kata_deploy_values\<close>. The result is the trace and either how the process
  ended inside the function or the list it returns.
\<close>

definition parse_kata_deploy_values ::
  "world \<Rightarrow> yaml \<Rightarrow> string list option \<Rightarrow> event list \<times> (outcome + ConfigOption list)" where
  "parse_kata_deploy_values w kata_version exclude_options =
     (case values_file w of
        Missing \<Rightarrow> ([PrintValuesNotFound], Inl (Exit 1))
      | Malformed \<Rightarrow> ([], Inl (Raised YAMLError))
      | Loaded values_data \<Rightarrow>
          (let excl = (case exclude_options of None \<Rightarrow> [] | Some xs \<Rightarrow> xs);
               options = extract_options excl values_data '''' [];
               (ev, readme_content) =
                 (case readme_file w of
                    Some text \<Rightarrow> ([], Some text)
                  | None \<Rightarrow>
                      if truthy kata_version then
                        (let (ev', r) = fetch_github_readme w kata_version
                         in (PrintFetching kata_version # ev', r))
                      else ([], None))
           in (case readme_content of
                 None \<Rightarrow> (ev, Inr options)
               | Some text \<Rightarrow>
                   if text \<noteq> [] then (ev, Inr (extract_descriptions text options))
                   else (ev, Inr options))))"

section \<open>The documentation check\<close>

text \<open>The five search patterns of lines 196 to 202, for one candidate.\<close>

definition search_patterns :: "string \<Rightarrow> regex list" where
  "search_patterns pattern =
     [ [One (Chr CHR ''#''), Many Dot] @ re_escape pattern,
       re_escape pattern @ [Many Space, One (Chr CHR '':'')],
       [One (Chr CHR 0x60)] @ re_escape pattern @ [One (Chr CHR 0x60)],
       re_escape ''--set'' @ [Many Dot] @ re_escape pattern,
       [One (Chr CHR ''|''), Many Space] @ re_escape pattern @ [Many Space, One (Chr CHR ''|'')] ]"

text \<open>The loop over \<^verbatim>\<open>search_patterns\<close>, which stops at the first hit.\<close>

fun try_search_patterns :: "regex list \<Rightarrow> string \<Rightarrow> bool" where
  "try_search_patterns [] all_content = False"
| "try_search_patterns (search_pattern # rest) all_content =
     (if re_search search_pattern all_content then True
      else try_search_patterns rest all_content)"

text \<open>
  The loop over \<^verbatim>\<open>patterns\<close>: the option as the loop leaves it, and \<^verbatim>\<open>found\<close>.
\<close>

fun try_patterns :: "string list \<Rightarrow> string \<Rightarrow> ConfigOption \<Rightarrow> ConfigOption \<times> bool" where
  "try_patterns [] all_content option = (option, False)"
| "try_patterns (pattern # rest) all_content option =
     (if try_search_patterns (search_patterns pattern) all_content
      then (option\<lparr>documented_in := insert pattern (documented_in option)\<rparr>, True)
      else try_patterns rest all_content option)"

definition candidate_patterns :: "string \<Rightarrow> ConfigOption \<Rightarrow> string list" where
  "candidate_patterns subchart_alias option =
     (let prefixed_path = subchart_alias @ ''.'' @ path option
      in [prefixed_path, path option, name option])"

text \<open>The loop over \<^verbatim>\<open>options\<close>, with the two lists it appends to.\<close>

fun classify ::
  "ConfigOption list \<Rightarrow> string \<Rightarrow> string \<Rightarrow> ConfigOption list \<Rightarrow> ConfigOption list
     \<Rightarrow> ConfigOption list \<times> ConfigOption list" where
  "classify [] all_content subchart_alias documented undocumented = (documented, undocumented)"
| "classify (option # options) all_content subchart_alias documented undocumented =
     (case try_patterns (candidate_patterns subchart_alias option) all_content option of
        (option', found) \<Rightarrow>
          if found then
            classify options all_content subchart_alias (documented @ [option']) undocumented
          else
            classify options all_content subchart_alias documented (undocumented @ [option']))"

definition read_all_content :: "string option \<Rightarrow> string option list \<Rightarrow> string" where
  "read_all_content values_text docs =
     (case values_text of Some text \<Rightarrow> text @ [CHR 0x0A] | None \<Rightarrow> []) @
     concat (map (\<lambda>d. case d of Some text \<Rightarrow> text @ [CHR 0x0A] | None \<Rightarrow> []) docs)"

definition check_documentation ::
  "ConfigOption list \<Rightarrow> string option \<Rightarrow> string option list \<Rightarrow> string
     \<Rightarrow> ConfigOption list \<times> ConfigOption list" where
  "check_documentation options values_text docs subchart_alias =
     classify options (read_all_content values_text docs) subchart_alias [] []"

section \<open>The report\<close>

text \<open>
  \<^verbatim>\<open>len(documented) / (len(documented) + len(undocumented)) * 100\<close>: the division
  raises when both lists are empty.
\<close>

definition coverage :: "nat \<Rightarrow> nat \<Rightarrow> py_error + rat" where
  "coverage n_documented n_undocumented =
     (if n_documented + n_undocumented = 0 then Inl ZeroDivisionError
      else Inr (of_nat n_documented / of_nat (n_documented + n_undocumented) * 100))"

definition missing_row :: "string \<Rightarrow> ConfigOption \<Rightarrow> block" where
  "missing_row subchart_alias option =
     (let prefixed_path = subchart_alias @ ''.'' @ path option;
          default_str = (if odefault option \<noteq> YNone then Str50 (odefault option) else NotAvailable);
          desc_str = (if description option \<noteq> [] then description option
                      else ''*(No description available)*'')
      in MissingRow prefixed_path (otype option) default_str desc_str)"

definition documented_row :: "string \<Rightarrow> ConfigOption \<Rightarrow> block" where
  "documented_row subchart_alias option =
     (let prefixed_path = subchart_alias @ ''.'' @ path option
      in DocumentedRow prefixed_path (otype option))"

definition text_rows :: "ConfigOption \<Rightarrow> block list" where
  "text_rows option =
     [TextOption (path option) (otype option)] @
     (if odefault option \<noteq> YNone then [TextDefault (odefault option)] else []) @
     (if description option \<noteq> [] then [TextDescription (description option)] else [])"

text \<open>
  \<^verbatim>\<open>generate_report\<close>; the last argument is the modification time of \<^verbatim>\<open>/tmp\<close>
  that the summary prints. \<^verbatim>\<open>sorted(xs, key=lambda x: x.path)\<close> is the stable
  \<open>sort_key path\<close>, strings compared as Python compares them.
\<close>

definition generate_report ::
  "yaml \<Rightarrow> ConfigOption list \<Rightarrow> ConfigOption list \<Rightarrow> string \<Rightarrow> string \<Rightarrow> string
     \<Rightarrow> py_error + report" where
  "generate_report kata_version documented undocumented output_format subchart_alias mtime =
     (if output_format = ''github'' then
        (case coverage (length documented) (length undocumented) of
           Inl e \<Rightarrow> Inl e
         | Inr c \<Rightarrow>
             Inr ([GithubSummary kata_version mtime (length documented) (length undocumented) c] @
                  (if undocumented \<noteq> [] then
                     [MissingHeader] @
                     map (missing_row subchart_alias) (sort_key path undocumented) @
                     [ActionRequired subchart_alias]
                   else [AllDocumented]) @
                  (if documented \<noteq> [] then
                     [DocumentedHeader (length documented)] @
                     map (documented_row subchart_alias) (sort_key path documented) @
                     [DetailsEnd]
                   else [])))
      else
        (case coverage (length documented) (length undocumented) of
           Inl e \<Rightarrow> Inl e
         | Inr c \<Rightarrow>
             Inr ([TextTitle, TextRule, TextVersion kata_version,
                   TextDocumented (length documented), TextUndocumented (length undocumented),
                   TextCoverage c] @
                  (if undocumented \<noteq> [] then
                     [TextMissing, TextMissingRule] @
                     concat (map text_rows (sort_key path undocumented))
                   else []))))"

section \<open>The coordinator\<close>

text \<open>\<^verbatim>\<open>d.get(key, default)\<close>: an object that is no dict has no \<^verbatim>\<open>get\<close>.\<close>

fun py_get :: "yaml \<Rightarrow> string \<Rightarrow> yaml \<Rightarrow> py_error + yaml" where
  "py_get (YDict items) key dflt =
     (case map_of items key of Some v \<Rightarrow> Inr v | None \<Rightarrow> Inr dflt)"
| "py_get v key dflt = Inl AttributeError"

text \<open>What \<^verbatim>\<open>for dep in v\<close> iterates over.\<close>

fun py_iter :: "yaml \<Rightarrow> py_error + yaml list" where
  "py_iter (YList xs) = Inr xs"
| "py_iter (YSet xs) = Inr xs"
| "py_iter (YDict items) = Inr (map (\<lambda>(k, v). YStr k) items)"
| "py_iter (YStr s) = Inr (map (\<lambda>c. YStr [c]) s)"
| "py_iter (YBytes s) = Inr (map (\<lambda>c. YInt (of_char c)) s)"
| "py_iter v = Inl TypeError"

text \<open>The loop of lines 392 to 395 over the dependencies.\<close>

fun find_kata_deploy :: "yaml list \<Rightarrow> py_error + yaml" where
  "find_kata_deploy [] = Inr (YStr ''unknown'')"
| "find_kata_deploy (dep # rest) =
     (case py_get dep ''name'' YNone of
        Inl e \<Rightarrow> Inl e
      | Inr n \<Rightarrow>
          if n = YStr ''kata-deploy'' then py_get dep ''version'' (YStr ''unknown'')
          else find_kata_deploy rest)"

text \<open>Lines 387 to 395: the version label, or the exception that ends the run.\<close>

definition resolve_kata_version :: "yaml_file \<Rightarrow> py_error + yaml" where
  "resolve_kata_version manifest =
     (case manifest of
        Missing \<Rightarrow> Inr (YStr ''unknown'')
      | Malformed \<Rightarrow> Inl YAMLError
      | Loaded chart_data \<Rightarrow>
          (case py_get chart_data ''dependencies'' (YList []) of
             Inl e \<Rightarrow> Inl e
           | Inr deps \<Rightarrow>
               (case py_iter deps of
                  Inl e \<Rightarrow> Inl e
                | Inr items \<Rightarrow> find_kata_deploy items)))"

record args =
  output_format :: string
  fail_on_missing :: bool

text \<open>Lines 430 to 437: the last message and how \<^verbatim>\<open>main\<close> ends.\<close>

definition exit_decision :: "args \<Rightarrow> ConfigOption list \<Rightarrow> event list \<times> outcome" where
  "exit_decision a undocumented =
     (if undocumented \<noteq> [] then
        ([PrintFailed (length undocumented)],
         if fail_on_missing a \<or> output_format a = ''github'' then Exit 1 else Finished)
      else ([PrintPassed], Exit 0))"

definition main :: "world \<Rightarrow> args \<Rightarrow> event list \<times> outcome" where
  "main w a =
     (case resolve_kata_version (chart_yaml w) of
        Inl e \<Rightarrow> ([], Raised e)
      | Inr kata_version \<Rightarrow>
          (let exclude_options = [''env.hostOS''];
               ev1 = [PrintValidating kata_version, PrintParsing, PrintExcluding exclude_options]
           in (case parse_kata_deploy_values w kata_version (Some exclude_options) of
                 (ev2, Inl stop) \<Rightarrow> (ev1 @ ev2, stop)
               | (ev2, Inr options) \<Rightarrow>
                   (let subchart_alias = ''kata-as-coco-runtime'';
                        ev3 = [PrintFound (length options), PrintChecking subchart_alias];
                        (documented, undocumented) =
                          check_documentation options (our_values w) (doc_files w) subchart_alias
                    in (case generate_report kata_version documented undocumented
                               (output_format a) subchart_alias (tmp_mtime w) of
                          Inl e \<Rightarrow> (ev1 @ ev2 @ ev3, Raised e)
                        | Inr report \<Rightarrow>
                            (let ev4 = [PrintReport report, WriteReport report, PrintSaved];
                                 (ev5, stop) = exit_decision a undocumented
                             in (ev1 @ ev2 @ ev3 @ ev4 @ ev5, stop)))))))"

section \<open>Notions used to state the properties\<close>

subsection \<open>Key chains in a configuration tree\<close>

text \<open>
  The path the extractor builds for the keys \<open>ks\<close> met below \<open>parent\<close>, joined as line 95
  joins them.
\<close>

fun path_of :: "string \<Rightarrow> string list \<Rightarrow> string" where
  "path_of parent [] = parent"
| "path_of parent (k # ks) = path_of (if parent \<noteq> [] then parent @ ''.'' @ k else k) ks"

text \<open>Following the keys \<open>ks\<close> from \<open>v\<close> through nested mappings leads to \<open>w\<close>.\<close>

fun reaches :: "yaml \<Rightarrow> string list \<Rightarrow> yaml \<Rightarrow> bool" where
  "reaches v [] w = (v = w)"
| "reaches v (k # ks) w =
     (case v of
        YDict items \<Rightarrow> (\<exists>(k', v') \<in> set items. k' = k \<and> reaches v' ks w)
      | _ \<Rightarrow> False)"

text \<open>
  The option \<open>opt\<close> records the leaf at the end of the key chain \<open>ks\<close> below \<open>v\<close>: no key
  of the chain starts with an underscore, no path along the chain is excluded, and the
  fields are those of the leaf.
\<close>

definition walked :: "string list \<Rightarrow> yaml \<Rightarrow> string \<Rightarrow> ConfigOption \<Rightarrow> string list \<Rightarrow> bool" where
  "walked excl v parent opt ks =
     (ks \<noteq> [] \<and> reaches v ks (odefault opt) \<and> path opt = path_of parent ks \<and>
      name opt = last ks \<and> (\<forall>k \<in> set ks. \<not> startswith k ''_'') \<and>
      (\<forall>n. 0 < n \<and> n \<le> length ks \<longrightarrow> path_of parent (take n ks) \<notin> set excl) \<and>
      \<not> is_dict (odefault opt) \<and> otype opt = type_name (odefault opt) \<and>
      description opt = [] \<and> documented_in opt = {})"

subsection \<open>The five ways a text mentions a pattern\<close>












subsection \<open>Options across the check\<close>

text \<open>
  The check changes nothing of an option but \<^verbatim>\<open>documented_in\<close>; the other fields tell
  which option of the input one of the output is.
\<close>

definition identity_of :: "ConfigOption \<Rightarrow> string \<times> string \<times> string \<times> yaml \<times> string" where
  "identity_of opt = (name opt, path opt, otype opt, odefault opt, description opt)"

text \<open>Whether the check finds an option, and the option as the check leaves it.\<close>

definition found :: "string \<Rightarrow> string \<Rightarrow> ConfigOption \<Rightarrow> bool" where
  "found text subchart_alias opt =
     snd (try_patterns (candidate_patterns subchart_alias opt) text opt)"

definition marked :: "string \<Rightarrow> string \<Rightarrow> ConfigOption \<Rightarrow> ConfigOption" where
  "marked text subchart_alias opt =
     fst (try_patterns (candidate_patterns subchart_alias opt) text opt)"


subsection \<open>The manifest\<close>


subsection \<open>The scenario of the specification\<close>

text \<open>
  The tree \<^verbatim>\<open>{env: {debug: false, hostOS: "ci"}}\<close>, the option it yields, the
  comment line that documents the option, and a run's surroundings built around them: no
  local reference document, no \<^verbatim>\<open>requests\<close>, one documentation file that does not
  exist.
\<close>

definition scenario_tree :: yaml where
  "scenario_tree = YDict [(''env'', YDict [(''debug'', YBool False), (''hostOS'', YStr ''ci'')])]"

definition debug_option :: ConfigOption where
  "debug_option = \<lparr>name = ''debug'', path = ''env.debug'', otype = ''bool'',
                    odefault = YBool False, description = '''', documented_in = {}\<rparr>"

definition scenario_comment :: string where
  "scenario_comment = ''# kata-as-coco-runtime.env.debug enables verbose logs''"

definition scenario_world :: "yaml_file \<Rightarrow> yaml_file \<Rightarrow> string option \<Rightarrow> world" where
  "scenario_world manifest upstream_values values_text =
     \<lparr>chart_yaml = manifest, values_file = upstream_values, readme_file = None,
      our_values = values_text, doc_files = [None], has_requests = False,
      http_get = (\<lambda>v. HttpException), tmp_mtime = ''0''\<rparr>"

definition text_args :: args where
  "text_args = \<lparr>output_format = ''text'', fail_on_missing = False\<rparr>"



section \<open>Extraction: auxiliary facts\<close>

lemma extract_items_step:
  "extract_items excl ((key, v) # rest) parent acc =
     (if startswith key ''_'' \<or> (if parent \<noteq> [] then parent @ ''.'' @ key else key) \<in> set excl
      then extract_items excl rest parent acc
      else if is_dict v
      then extract_items excl rest parent
             (extract_options excl v (if parent \<noteq> [] then parent @ ''.'' @ key else key) acc)
      else extract_items excl rest parent
             (acc @ [\<lparr>name = key, path = (if parent \<noteq> [] then parent @ ''.'' @ key else key),
                      otype = type_name v, odefault = v, description = '''',
                      documented_in = {}\<rparr>]))"
  by (simp add: Let_def del: extract_options.simps)

lemma extract_options_dict:
  "extract_options excl (YDict items) parent acc = extract_items excl items parent acc"
  by simp

lemma extract_options_leaf:
  "\<not> is_dict v \<Longrightarrow> extract_options excl v parent acc = acc"
  by (cases v) simp_all

declare extract_options.simps [simp del]
declare extract_items.simps(2) [simp del]

lemma extract_items_acc:
  assumes "\<And>k v p acc. (k, v) \<in> set items \<Longrightarrow>
             extract_options excl v p acc = acc @ extract_options excl v p []"
  shows "extract_items excl items parent acc = acc @ extract_items excl items parent []"
  using assms
proof (induction items arbitrary: acc)
  case Nil
  show ?case by simp
next
  case (Cons kv rest)
  obtain key v where kv: "kv = (key, v)" by (cases kv)
  define cur where "cur = (if parent \<noteq> [] then parent @ ''.'' @ key else key)"
  define opt where "opt = \<lparr>name = key, path = cur, otype = type_name v, odefault = v,
                             description = '''', documented_in = {}\<rparr>"
  have sub_rest: "extract_options excl v p acc = acc @ extract_options excl v p []"
    if "(k, v) \<in> set rest" for k v p acc
    by (rule Cons.prems[of k]) (simp add: that)
  have ih: "extract_items excl rest parent acc = acc @ extract_items excl rest parent []" for acc
    by (rule Cons.IH[OF sub_rest])
  have sub: "extract_options excl v cur acc = acc @ extract_options excl v cur []"
    by (rule Cons.prems[of key]) (simp add: kv)
  have step: "extract_items excl (kv # rest) parent a =
     (if startswith key ''_'' \<or> cur \<in> set excl then extract_items excl rest parent a
      else if is_dict v then extract_items excl rest parent (extract_options excl v cur a)
      else extract_items excl rest parent (a @ [opt]))" for a
    unfolding kv cur_def opt_def by (rule extract_items_step)
  consider (skip) "startswith key ''_'' \<or> cur \<in> set excl"
    | (dict) "\<not> (startswith key ''_'' \<or> cur \<in> set excl)" "is_dict v"
    | (leaf) "\<not> (startswith key ''_'' \<or> cur \<in> set excl)" "\<not> is_dict v"
    by blast
  then show ?case
  proof cases
    case skip
    then show ?thesis using ih[of acc] by (simp only: step if_True)
  next
    case dict
    have "extract_items excl rest parent (extract_options excl v cur acc)
          = (acc @ extract_options excl v cur []) @ extract_items excl rest parent []"
      using ih[of "extract_options excl v cur acc"] sub by (simp only:)
    also have "\<dots> = acc @ extract_items excl rest parent (extract_options excl v cur [])"
      using ih[of "extract_options excl v cur []"] by (simp only: append_assoc)
    finally show ?thesis using dict by (simp only: step if_True if_False)
  next
    case leaf
    have "extract_items excl rest parent (acc @ [opt])
          = acc @ extract_items excl rest parent ([] @ [opt])"
      using ih[of "acc @ [opt]"] ih[of "[opt]"] by (simp only: append_assoc append_Nil)
    then show ?thesis using leaf by (simp only: step if_True if_False)
  qed
qed

lemma extract_options_acc:
  "extract_options excl v parent acc = acc @ extract_options excl v parent []"
proof (induction v arbitrary: parent acc)
  case (YDict items)
  have "extract_items excl items parent acc = acc @ extract_items excl items parent []"
  proof (rule extract_items_acc)
    fix k v p acc
    assume "(k, v) \<in> set items"
    then show "extract_options excl v p acc = acc @ extract_options excl v p []"
      by (intro YDict.IH[of "(k, v)" v]) simp_all
  qed
  then show ?case by (simp only: extract_options_dict)
qed (simp_all add: extract_options_leaf)

lemma extract_items_Cons:
  "extract_items excl ((key, v) # rest) parent [] =
     (if startswith key ''_'' \<or> (if parent \<noteq> [] then parent @ ''.'' @ key else key) \<in> set excl
      then []
      else if is_dict v
      then extract_options excl v (if parent \<noteq> [] then parent @ ''.'' @ key else key) []
      else [\<lparr>name = key, path = (if parent \<noteq> [] then parent @ ''.'' @ key else key),
              otype = type_name v, odefault = v, description = '''', documented_in = {}\<rparr>])
     @ extract_items excl rest parent []"
proof -
  have acc: "extract_items excl rest parent a = a @ extract_items excl rest parent []" for a
    by (rule extract_items_acc) (rule extract_options_acc)
  show ?thesis
    unfolding extract_items_step[of excl key v rest parent "[]"]
    using acc[of "extract_options excl v _ []"] acc[of "[_]"]
    by simp
qed

lemma reaches_Cons_items:
  "ks \<noteq> [] \<Longrightarrow> reaches (YDict rest) ks w \<Longrightarrow> reaches (YDict (kv # rest)) ks w"
  by (cases ks) auto

lemma walked_rest:
  "walked excl (YDict rest) parent opt ks \<Longrightarrow> walked excl (YDict (kv # rest)) parent opt ks"
  unfolding walked_def using reaches_Cons_items by blast

lemma walked_leaf:
  assumes "\<not> startswith key ''_''"
    and "(if parent \<noteq> [] then parent @ ''.'' @ key else key) \<notin> set excl"
    and "\<not> is_dict v"
  shows "walked excl (YDict ((key, v) # rest)) parent
           \<lparr>name = key, path = (if parent \<noteq> [] then parent @ ''.'' @ key else key),
            otype = type_name v, odefault = v, description = '''', documented_in = {}\<rparr> [key]"
  using assms unfolding walked_def by (auto simp: le_Suc_eq)

lemma walked_into:
  assumes "\<not> startswith key ''_''"
    and "(if parent \<noteq> [] then parent @ ''.'' @ key else key) \<notin> set excl"
    and "walked excl v (if parent \<noteq> [] then parent @ ''.'' @ key else key) opt ks"
  shows "walked excl (YDict ((key, v) # rest)) parent opt (key # ks)"
proof -
  define cur where "cur = (if parent \<noteq> [] then parent @ ''.'' @ key else key)"
  note w = assms(3)[folded cur_def, unfolded walked_def]
  have pre: "path_of parent (take n (key # ks)) \<notin> set excl" if "0 < n" "n \<le> length (key # ks)" for n
  proof (cases n)
    case 0
    with that show ?thesis by simp
  next
    case (Suc m)
    show ?thesis
    proof (cases m)
      case 0
      with Suc assms(2) show ?thesis by simp
    next
      case (Suc m')
      with \<open>n = Suc m\<close> that w have "path_of cur (take m ks) \<notin> set excl" by simp
      with \<open>n = Suc m\<close> show ?thesis by (simp add: cur_def)
    qed
  qed
  from w have "reaches (YDict ((key, v) # rest)) (key # ks) (odefault opt)" by simp
  moreover from w have "path opt = path_of parent (key # ks)" by (simp add: cur_def)
  moreover from w have "name opt = last (key # ks)" by simp
  moreover from w assms(1) have "\<forall>k \<in> set (key # ks). \<not> startswith k ''_''" by simp
  ultimately show ?thesis using w pre unfolding walked_def by blast
qed

lemma extract_items_walked:
  assumes "\<And>k v p opt. (k, v) \<in> set items \<Longrightarrow> opt \<in> set (extract_options excl v p []) \<Longrightarrow>
             \<exists>ks. walked excl v p opt ks"
    and "opt \<in> set (extract_items excl items parent [])"
  shows "\<exists>ks. walked excl (YDict items) parent opt ks"
  using assms
proof (induction items)
  case Nil
  then show ?case by simp
next
  case (Cons kv rest)
  obtain key v where kv: "kv = (key, v)" by (cases kv)
  define cur where "cur = (if parent \<noteq> [] then parent @ ''.'' @ key else key)"
  define leaf where "leaf = \<lparr>name = key, path = cur, otype = type_name v, odefault = v,
                              description = '''', documented_in = {}\<rparr>"
  have step: "extract_items excl (kv # rest) parent [] =
     (if startswith key ''_'' \<or> cur \<in> set excl then []
      else if is_dict v then extract_options excl v cur [] else [leaf])
     @ extract_items excl rest parent []"
    unfolding kv cur_def leaf_def by (rule extract_items_Cons)
  have sub_rest: "\<exists>ks. walked excl v p opt ks"
    if "(k, v) \<in> set rest" "opt \<in> set (extract_options excl v p [])" for k v p opt
    by (rule Cons.prems(1)[of k]) (simp_all add: that)
  from Cons.prems(2) consider
      (rest) "opt \<in> set (extract_items excl rest parent [])"
    | (dict) "\<not> startswith key ''_''" "cur \<notin> set excl" "is_dict v"
             "opt \<in> set (extract_options excl v cur [])"
    | (leaf) "\<not> startswith key ''_''" "cur \<notin> set excl" "\<not> is_dict v" "opt = leaf"
    unfolding step by (auto split: if_splits)
  then show ?case
  proof cases
    case rest
    have "\<exists>ks. walked excl (YDict rest) parent opt ks"
    proof (rule Cons.IH)
      fix k v p opt
      assume "(k, v) \<in> set rest" "opt \<in> set (extract_options excl v p [])"
      then show "\<exists>ks. walked excl v p opt ks" by (rule sub_rest)
    next
      show "opt \<in> set (extract_items excl rest parent [])" by (rule rest)
    qed
    then show ?thesis using walked_rest by blast
  next
    case dict
    have "\<exists>ks. walked excl v cur opt ks"
      by (rule Cons.prems(1)[of key]) (simp_all add: kv dict)
    then obtain ks where "walked excl v cur opt ks" ..
    then have "walked excl (YDict ((key, v) # rest)) parent opt (key # ks)"
      using dict(1,2) unfolding cur_def by (intro walked_into)
    then show ?thesis unfolding kv by blast
  next
    case leaf
    have "walked excl (YDict ((key, v) # rest)) parent opt [key]"
      unfolding leaf(4) leaf_def cur_def using leaf(1,2,3) unfolding cur_def
      by (intro walked_leaf)
    then show ?thesis unfolding kv by blast
  qed
qed

lemma extract_options_walked:
  "opt \<in> set (extract_options excl v parent []) \<Longrightarrow> \<exists>ks. walked excl v parent opt ks"
proof (induction v arbitrary: parent opt)
  case (YDict items)
  from YDict.prems have mem: "opt \<in> set (extract_items excl items parent [])"
    by (simp only: extract_options_dict)
  show ?case
  proof (rule extract_items_walked[OF _ mem])
    fix k v p opt
    assume "(k, v) \<in> set items" "opt \<in> set (extract_options excl v p [])"
    then show "\<exists>ks. walked excl v p opt ks"
      by (intro YDict.IH[of "(k, v)" v]) simp_all
  qed
qed (simp_all add: extract_options_leaf)

section \<open>Regular expressions: auxiliary facts\<close>





























section \<open>The documentation check: auxiliary facts\<close>



lemma try_patterns_identity: "identity_of (fst (try_patterns ps text opt)) = identity_of opt"
  by (induction ps) (simp_all add: identity_of_def)

lemma try_patterns_not_found: "\<not> snd (try_patterns ps text opt) \<Longrightarrow> fst (try_patterns ps text opt) = opt"
  by (induction ps) (simp_all split: if_splits)

lemma try_patterns_same_verdict:
  "snd (try_patterns ps text opt) = snd (try_patterns ps text opt')"
  by (induction ps) simp_all

lemma classify_filter:
  "classify opts text alias documented undocumented =
     (documented @ map (marked text alias) (filter (found text alias) opts),
      undocumented @ filter (\<lambda>opt. \<not> found text alias opt) opts)"
proof (induction opts arbitrary: documented undocumented)
  case Nil
  show ?case by simp
next
  case (Cons opt opts)
  obtain opt' f where tp: "try_patterns (candidate_patterns alias opt) text opt = (opt', f)"
    by (cases "try_patterns (candidate_patterns alias opt) text opt")
  then have f: "found text alias opt = f" and m: "marked text alias opt = opt'"
    unfolding found_def marked_def by simp_all
  show ?case
  proof (cases f)
    case True
    with f show ?thesis
      using Cons[of "documented @ [opt']" undocumented] by (simp add: tp m)
  next
    case False
    with tp have "opt' = opt"
      using try_patterns_not_found[of "candidate_patterns alias opt" "text" opt] by simp
    with False f show ?thesis
      using Cons[of documented "undocumented @ [opt]"] by (simp add: tp)
  qed
qed

lemma found_identity:
  assumes "identity_of a = identity_of b"
  shows "found text alias a = found text alias b"
proof -
  from assms have "candidate_patterns alias a = candidate_patterns alias b"
    unfolding candidate_patterns_def identity_of_def by simp
  then show ?thesis
    unfolding found_def by (simp add: try_patterns_same_verdict[where opt = a and opt' = b])
qed

lemma marked_identity: "identity_of (marked text alias opt) = identity_of opt"
  unfolding marked_def by (rule try_patterns_identity)

section \<open>Parsing: auxiliary facts\<close>

lemma extract_descriptions_fields:
  "opt \<in> set (extract_descriptions readme opts) \<Longrightarrow>
     \<exists>orig \<in> set opts. name opt = name orig \<and> path opt = path orig \<and> otype opt = otype orig \<and>
                        odefault opt = odefault orig \<and> documented_in opt = documented_in orig"
  by (induction opts) (auto split: option.splits)

lemma parse_returns:
  assumes "parse_kata_deploy_values w ver excl_opt = (ev, Inr opts)"
  obtains tree readme where "values_file w = Loaded tree"
    and "opts = extract_options (case excl_opt of None \<Rightarrow> [] | Some xs \<Rightarrow> xs) tree '''' [] \<or>
         opts = extract_descriptions readme
                  (extract_options (case excl_opt of None \<Rightarrow> [] | Some xs \<Rightarrow> xs) tree '''' [])"
  using assms unfolding parse_kata_deploy_values_def
  by (auto simp: Let_def split: yaml_file.splits option.splits if_splits prod.splits)

lemma parse_option_origin:
  assumes "parse_kata_deploy_values w ver excl_opt = (ev, Inr opts)" and "opt \<in> set opts"
  shows "\<exists>tree orig. values_file w = Loaded tree \<and>
           orig \<in> set (extract_options (case excl_opt of None \<Rightarrow> [] | Some xs \<Rightarrow> xs) tree '''' []) \<and>
           name opt = name orig \<and> path opt = path orig \<and> otype opt = otype orig \<and>
           odefault opt = odefault orig"
proof -
  from assms(1) obtain tree readme where r: "values_file w = Loaded tree"
    and o: "opts = extract_options (case excl_opt of None \<Rightarrow> [] | Some xs \<Rightarrow> xs) tree '''' [] \<or>
         opts = extract_descriptions readme
                  (extract_options (case excl_opt of None \<Rightarrow> [] | Some xs \<Rightarrow> xs) tree '''' [])"
    by (rule parse_returns)
  from o show ?thesis
  proof
    assume "opts = extract_options (case excl_opt of None \<Rightarrow> [] | Some xs \<Rightarrow> xs) tree '''' []"
    with assms(2) r show ?thesis by blast
  next
    assume "opts = extract_descriptions readme
                  (extract_options (case excl_opt of None \<Rightarrow> [] | Some xs \<Rightarrow> xs) tree '''' [])"
    with assms(2) extract_descriptions_fields[of opt readme] r show ?thesis by blast
  qed
qed

lemma type_name_not_dict: "\<not> is_dict v \<Longrightarrow> type_name v \<noteq> ''dict''"
  by (cases v) simp_all

lemma walked_not_excluded: "walked excl v parent opt ks \<Longrightarrow> path opt \<notin> set excl"
  unfolding walked_def by (metis length_greater_0_conv order_refl take_all)

section \<open>The report and the coordinator: auxiliary facts\<close>

lemma generate_report_raises_iff:
  "(\<exists>e. generate_report ver documented undocumented fmt subchart_alias mtime = Inl e)
     \<longleftrightarrow> documented = [] \<and> undocumented = []"
  unfolding generate_report_def coverage_def by (auto split: sum.splits)




lemma main_report_raises:
  assumes "resolve_kata_version (chart_yaml w) = Inr ver"
    and "parse_kata_deploy_values w ver (Some [''env.hostOS'']) = (ev, Inr [])"
  shows "main w a =
           ([PrintValidating ver, PrintParsing, PrintExcluding [''env.hostOS'']] @ ev @
            [PrintFound 0, PrintChecking ''kata-as-coco-runtime''],
            Raised ZeroDivisionError)"
  using assms unfolding main_def
  by (simp add: Let_def check_documentation_def generate_report_def coverage_def)

lemma parse_no_options:
  assumes "values_file w = Loaded tree"
    and "extract_options (case excl_opt of None \<Rightarrow> [] | Some xs \<Rightarrow> xs) tree [] [] = []"
  shows "\<exists>ev. parse_kata_deploy_values w ver excl_opt = (ev, Inr [])"
proof (cases "readme_file w")
  case None
  obtain ev' r where f: "fetch_github_readme w ver = (ev', r)"
    by (cases "fetch_github_readme w ver")
  show ?thesis
    unfolding parse_kata_deploy_values_def using assms None f
    by (cases r) (simp_all add: Let_def)
next
  case (Some readme)
  show ?thesis
    unfolding parse_kata_deploy_values_def using assms Some
    by (simp add: Let_def)
qed

lemma non_mapping_root_run_raises:
  assumes "values_file w = Loaded tree" and "\<not> is_dict tree"
    and "resolve_kata_version (chart_yaml w) = Inr ver"
  shows "snd (main w a) = Raised ZeroDivisionError"
proof -
  have "extract_options (case Some [''env.hostOS''] of None \<Rightarrow> [] | Some xs \<Rightarrow> xs) tree [] [] = []"
    using assms(2) by (simp add: extract_options_leaf)
  from parse_no_options[OF assms(1) this]
  obtain ev where "parse_kata_deploy_values w ver (Some [''env.hostOS'']) = (ev, Inr [])"
    by blast
  from main_report_raises[OF assms(3) this] show ?thesis by simp
qed



section \<open>The scenario: evaluation\<close>

lemmas scenario_defs = scenario_tree_def debug_option_def scenario_comment_def scenario_world_def

lemma scenario_extract:
  "extract_options [''env.hostOS''] scenario_tree '''' [] = [debug_option]"
  by (simp add: scenario_defs extract_options.simps extract_items.simps(2) startswith_def)

lemma scenario_parse:
  "parse_kata_deploy_values (scenario_world m (Loaded scenario_tree) t) (YStr ''unknown'')
     (Some [''env.hostOS'']) = ([PrintFetching (YStr ''unknown'')], Inr [debug_option])"
  unfolding parse_kata_deploy_values_def
  by (simp add: scenario_extract scenario_world_def fetch_github_readme_def)

lemma scenario_version:
  "resolve_kata_version (chart_yaml (scenario_world Missing v t)) = Inr (YStr ''unknown'')"
  by (simp add: scenario_world_def resolve_kata_version_def)


lemma scenario_check_documented:
  "check_documentation [debug_option] (Some scenario_comment) [None] ''kata-as-coco-runtime''
     = ([debug_option\<lparr>documented_in := {''kata-as-coco-runtime.env.debug''}\<rparr>], [])"
  by (simp add: check_documentation_def read_all_content_def candidate_patterns_def
        search_patterns_def re_escape_def debug_option_def scenario_comment_def lower_def)




section \<open>The properties\<close>

subsection \<open>C1: report generation and the division\<close>

text \<open>
  C1. Report generation is to return a report with a well-defined coverage for every
  partition, also when the documented and the undocumented list are both empty. The
  script divides by the sum of the two lengths with no guard: on two empty lists
  \<^verbatim>\<open>generate_report\<close> raises \<^verbatim>\<open>ZeroDivisionError\<close>, in the markdown mode and in
  the text mode alike, and returns no report.
\<close>

theorem generate_report_divides_by_zero:
  "generate_report ver [] [] output_mode subchart_alias mtime = Inl ZeroDivisionError"
  unfolding generate_report_def coverage_def by simp

subsection \<open>C2: the extraction scenario\<close>

text \<open>
  C2. For the tree \<^verbatim>\<open>{env: {debug: false, hostOS: "ci"}}\<close> and the exclusion list
  \<^verbatim>\<open>["env.hostOS"]\<close>, extraction yields exactly one option: its path is
  \<^verbatim>\<open>env.debug\<close>, its type \<^verbatim>\<open>bool\<close>, its default \<^verbatim>\<open>False\<close>.
\<close>

theorem extract_env_debug_scenario:
  "extract_options [''env.hostOS'']
     (YDict [(''env'', YDict [(''debug'', YBool False), (''hostOS'', YStr ''ci'')])]) '''' []
   = [\<lparr>name = ''debug'', path = ''env.debug'', otype = ''bool'', odefault = YBool False,
        description = '''', documented_in = {}\<rparr>]"
  using scenario_extract unfolding scenario_defs .

subsection \<open>C3: the check partitions its input\<close>

text \<open>
  C3. For every option list and corpus, the documented and the undocumented list that
  \<^verbatim>\<open>check_documentation\<close> returns partition the input: counted with multiplicity,
  the options of the two lists are those of the input (none is dropped, none is
  duplicated), and no option is in both lists. The check writes \<^verbatim>\<open>documented_in\<close>
  of the options it finds, so the options are compared by their other fields.
\<close>

theorem check_documentation_partitions:
  "(case check_documentation opts values_text docs alias of
      (documented, undocumented) \<Rightarrow>
        mset (map identity_of documented) + mset (map identity_of undocumented)
          = mset (map identity_of opts) \<and>
        set (map identity_of documented) \<inter> set (map identity_of undocumented) = {} \<and>
        set documented \<inter> set undocumented = {} \<and>
        length documented + length undocumented = length opts)"
proof -
  define corpus where "corpus = read_all_content values_text docs"
  define d where "d = map (marked corpus alias) (filter (found corpus alias) opts)"
  define u where "u = filter (\<lambda>opt. \<not> found corpus alias opt) opts"
  have res: "check_documentation opts values_text docs alias = (d, u)"
    unfolding check_documentation_def classify_filter d_def u_def corpus_def by simp
  have idd: "map identity_of d = map identity_of (filter (found corpus alias) opts)"
    unfolding d_def by (simp add: marked_identity)
  have m: "mset (map identity_of d) + mset (map identity_of u) = mset (map identity_of opts)"
    unfolding idd u_def by (induction opts) simp_all
  have fd: "found corpus alias x" if "x \<in> set d" for x
  proof -
    from that obtain y where "y \<in> set opts" "found corpus alias y" "x = marked corpus alias y"
      unfolding d_def by auto
    moreover have "found corpus alias (marked corpus alias y) = found corpus alias y"
      by (rule found_identity) (rule marked_identity)
    ultimately show ?thesis by simp
  qed
  have fu: "\<not> found corpus alias x" if "x \<in> set u" for x
    using that unfolding u_def by simp
  have dis_id: "set (map identity_of d) \<inter> set (map identity_of u) = {}"
    unfolding set_map using fd fu found_identity by blast
  then have dis: "set d \<inter> set u = {}" by auto
  have len: "length d + length u = length opts"
    unfolding d_def u_def by (simp add: sum_length_filter_compl)
  show ?thesis unfolding res using m dis_id dis len by simp
qed

theorem check_documentation_partitions_witness:
  "mset (map identity_of [debug_option\<lparr>documented_in := {''kata-as-coco-runtime.env.debug''}\<rparr>]) +
     mset (map identity_of []) = mset (map identity_of [debug_option]) \<and>
   set [debug_option\<lparr>documented_in := {''kata-as-coco-runtime.env.debug''}\<rparr>] \<inter> set [] = {}"
  using check_documentation_partitions[of "[debug_option]" "Some scenario_comment" "[None]"
          "''kata-as-coco-runtime''"]
  unfolding scenario_check_documented by simp

subsection \<open>C4: the exit status\<close>



subsection \<open>C5: a missing upstream values file\<close>

text \<open>
  C5. If the upstream chart directory has no \<^verbatim>\<open>values.yaml\<close>,
  \<^verbatim>\<open>parse_kata_deploy_values\<close> prints the error and exits with status 1 without
  returning any option. The whole run then ends with a nonzero status, whatever the state of
  the manifest; nothing but the opening messages and the error is printed, so no reference
  document is fetched, no documentation is checked, and no report is generated, printed or
  saved.
\<close>

theorem missing_values_file_is_fatal:
  assumes "values_file w = Missing"
  shows "parse_kata_deploy_values w ver excl_opt = ([PrintValuesNotFound], Inl (Exit 1)) \<and>
         process_status (snd (main w a)) \<noteq> 0 \<and>
         (\<forall>e \<in> set (fst (main w a)).
            e \<in> {PrintValuesNotFound, PrintParsing} \<or> (\<exists>v. e = PrintValidating v) \<or>
            (\<exists>xs. e = PrintExcluding xs)) \<and>
         (resolve_kata_version (chart_yaml w) = Inr ver' \<longrightarrow>
            main w a = ([PrintValidating ver', PrintParsing, PrintExcluding [''env.hostOS''],
                         PrintValuesNotFound], Exit 1))"
proof -
  have p: "parse_kata_deploy_values w v e = ([PrintValuesNotFound], Inl (Exit 1))" for v e
    using assms unfolding parse_kata_deploy_values_def by simp
  show ?thesis
  proof (cases "resolve_kata_version (chart_yaml w)")
    case (Inl e)
    then have "main w a = ([], Raised e)" unfolding main_def by simp
    with p Inl show ?thesis by simp
  next
    case (Inr v)
    then have "main w a = ([PrintValidating v, PrintParsing, PrintExcluding [''env.hostOS''],
                            PrintValuesNotFound], Exit 1)"
      unfolding main_def by (simp add: p Let_def)
    with p Inr show ?thesis by auto
  qed
qed

theorem missing_values_file_is_fatal_witness:
  "values_file (scenario_world Missing Missing None) = Missing \<and>
   main (scenario_world Missing Missing None) text_args
     = ([PrintValidating (YStr ''unknown''), PrintParsing, PrintExcluding [''env.hostOS''],
         PrintValuesNotFound], Exit 1) \<and>
   process_status (snd (main (scenario_world Missing Missing None) text_args)) \<noteq> 0"
proof -
  have v: "values_file (scenario_world Missing Missing None) = Missing"
    by (simp add: scenario_world_def)
  from missing_values_file_is_fatal[OF v, of _ _ text_args "YStr ''unknown''"] scenario_version v
  show ?thesis by blast
qed

subsection \<open>C6: candidate patterns and match forms\<close>



subsection \<open>C7: excluded paths and marker keys\<close>

text \<open>
  C7. For every configuration tree and exclusion list, no extracted option has an excluded
  path, and every extracted option is the leaf at the end of a chain of keys none of which
  starts with an underscore and none of whose paths along the way is excluded. An entry
  whose key starts with an underscore or whose path is excluded is skipped whole, whatever
  its value, a mapping included.
\<close>

theorem excluded_and_marker_keys_never_extracted:
  "(opt \<in> set (extract_options excl tree '''' []) \<longrightarrow>
      path opt \<notin> set excl \<and>
      (\<exists>ks. ks \<noteq> [] \<and> reaches tree ks (odefault opt) \<and> path opt = path_of '''' ks \<and>
            name opt = last ks \<and> (\<forall>k \<in> set ks. \<not> startswith k ''_'') \<and>
            (\<forall>n. 0 < n \<and> n \<le> length ks \<longrightarrow> path_of '''' (take n ks) \<notin> set excl))) \<and>
   (parse_kata_deploy_values w ver (Some excl) = (ev, Inr opts) \<and> opt' \<in> set opts \<longrightarrow>
      path opt' \<notin> set excl) \<and>
   (startswith key ''_'' \<or> (if parent \<noteq> [] then parent @ ''.'' @ key else key) \<in> set excl \<longrightarrow>
      extract_items excl ((key, v) # rest) parent acc = extract_items excl rest parent acc)"
proof -
  have a: "path x \<notin> set excl \<and>
      (\<exists>ks. ks \<noteq> [] \<and> reaches r ks (odefault x) \<and> path x = path_of '''' ks \<and>
            name x = last ks \<and> (\<forall>k \<in> set ks. \<not> startswith k ''_'') \<and>
            (\<forall>n. 0 < n \<and> n \<le> length ks \<longrightarrow> path_of '''' (take n ks) \<notin> set excl))"
    if "x \<in> set (extract_options excl r '''' [])" for x r
  proof -
    from that obtain ks where w: "walked excl r '''' x ks" using extract_options_walked by blast
    then have "path x \<notin> set excl" by (rule walked_not_excluded)
    with w show ?thesis unfolding walked_def by blast
  qed
  have b: "path opt' \<notin> set excl"
    if "parse_kata_deploy_values w ver (Some excl) = (ev, Inr opts)" "opt' \<in> set opts"
  proof -
    from parse_option_origin[OF that] obtain tree orig where
      "orig \<in> set (extract_options excl tree '''' [])" "path opt' = path orig" by auto
    with a[of orig] show ?thesis by simp
  qed
  have c: "extract_items excl ((key, v) # rest) parent acc = extract_items excl rest parent acc"
    if "startswith key ''_'' \<or> (if parent \<noteq> [] then parent @ ''.'' @ key else key) \<in> set excl"
    using that by (simp only: extract_items_step if_True)
  from a b c show ?thesis by blast
qed

theorem excluded_and_marker_keys_never_extracted_witness:
  "debug_option \<in> set (extract_options [''env.hostOS''] scenario_tree '''' []) \<and>
   parse_kata_deploy_values (scenario_world Missing (Loaded scenario_tree) None) (YStr ''unknown'')
     (Some [''env.hostOS'']) = ([PrintFetching (YStr ''unknown'')], Inr [debug_option]) \<and>
   path debug_option \<notin> set [''env.hostOS''] \<and>
   (\<exists>ks. ks \<noteq> [] \<and> reaches scenario_tree ks (odefault debug_option) \<and>
         path debug_option = path_of '''' ks \<and> name debug_option = last ks) \<and>
   startswith ''_internal'' ''_'' \<and>
   extract_items [''env.hostOS''] [(''_internal'', YDict [(''image'', YStr ''x'')])] '''' [] = [] \<and>
   ''env.hostOS'' \<in> set [''env.hostOS''] \<and>
   extract_items [''env.hostOS''] [(''hostOS'', YDict [(''image'', YStr ''x'')])] ''env'' [] = []"
proof -
  note t = excluded_and_marker_keys_never_extracted
  have a: "debug_option \<in> set (extract_options [''env.hostOS''] scenario_tree '''' [])"
    by (simp add: scenario_extract)
  have b: "startswith ''_internal'' ''_''"
    by (simp add: startswith_def)
  have c: "(if ''env'' \<noteq> [] then ''env'' @ ''.'' @ ''hostOS'' else ''hostOS'') \<in> set [''env.hostOS'']"
    by simp
  have d: "parse_kata_deploy_values (scenario_world Missing (Loaded scenario_tree) None)
             (YStr ''unknown'') (Some [''env.hostOS''])
           = ([PrintFetching (YStr ''unknown'')], Inr [debug_option]) \<and>
           debug_option \<in> set [debug_option]"
    by (simp add: scenario_parse)
  from t[of debug_option "[''env.hostOS'']" scenario_tree, THEN conjunct1, rule_format, OF a]
  have 1: "path debug_option \<notin> set [''env.hostOS''] \<and>
           (\<exists>ks. ks \<noteq> [] \<and> reaches scenario_tree ks (odefault debug_option) \<and>
                 path debug_option = path_of '''' ks \<and> name debug_option = last ks)"
    by blast
  have 2: "extract_items [''env.hostOS''] [(''_internal'', YDict [(''image'', YStr ''x'')])] '''' []
             = extract_items [''env.hostOS''] [] '''' []"
    by (rule t[THEN conjunct2, THEN conjunct2, rule_format]) (rule disjI1, rule b)
  have 3: "extract_items [''env.hostOS''] [(''hostOS'', YDict [(''image'', YStr ''x'')])] ''env'' []
             = extract_items [''env.hostOS''] [] ''env'' []"
    by (rule t[THEN conjunct2, THEN conjunct2, rule_format]) (rule disjI2, rule c)
  have 4: "path debug_option \<notin> set [''env.hostOS'']"
    by (rule t[THEN conjunct2, THEN conjunct1, rule_format, OF d])
  from a b d 1 2 3 4 show ?thesis by simp
qed

subsection \<open>C8: extracted options are leaves\<close>

text \<open>
  C8. Every extracted option is a leaf: its default is never a mapping, its recorded type
  is the name of the runtime type of its default, and that name is never \<^verbatim>\<open>dict\<close>. This
  holds of the list the recursive extraction builds and of the list
  \<^verbatim>\<open>parse_kata_deploy_values\<close> returns.
\<close>

theorem extracted_options_are_leaves:
  "(opt \<in> set (extract_options excl tree parent []) \<longrightarrow>
      \<not> is_dict (odefault opt) \<and> otype opt = type_name (odefault opt) \<and> otype opt \<noteq> ''dict'') \<and>
   (parse_kata_deploy_values w ver excl_opt = (ev, Inr opts) \<and> opt' \<in> set opts \<longrightarrow>
      \<not> is_dict (odefault opt') \<and> otype opt' = type_name (odefault opt') \<and> otype opt' \<noteq> ''dict'')"
proof -
  have leaf: "\<not> is_dict (odefault x) \<and> otype x = type_name (odefault x) \<and> otype x \<noteq> ''dict''"
    if "x \<in> set (extract_options e r p [])" for x e r p
  proof -
    from that obtain ks where "walked e r p x ks" using extract_options_walked by blast
    then show ?thesis unfolding walked_def using type_name_not_dict by auto
  qed
  have "\<not> is_dict (odefault opt') \<and> otype opt' = type_name (odefault opt') \<and> otype opt' \<noteq> ''dict''"
    if "parse_kata_deploy_values w ver excl_opt = (ev, Inr opts)" "opt' \<in> set opts"
  proof -
    from parse_option_origin[OF that] obtain tree orig where
      o: "orig \<in> set (extract_options (case excl_opt of None \<Rightarrow> [] | Some xs \<Rightarrow> xs) tree '''' [])"
      and e: "otype opt' = otype orig" "odefault opt' = odefault orig" by blast
    from leaf[OF o] show ?thesis unfolding e .
  qed
  with leaf show ?thesis by blast
qed

theorem extracted_options_are_leaves_witness:
  "debug_option \<in> set (extract_options [''env.hostOS''] scenario_tree '''' []) \<and>
   parse_kata_deploy_values (scenario_world Missing (Loaded scenario_tree) None) (YStr ''unknown'')
     (Some [''env.hostOS'']) = ([PrintFetching (YStr ''unknown'')], Inr [debug_option]) \<and>
   \<not> is_dict (odefault debug_option) \<and>
   otype debug_option = type_name (odefault debug_option) \<and>
   otype debug_option \<noteq> ''dict''"
proof -
  have a: "debug_option \<in> set (extract_options [''env.hostOS''] scenario_tree '''' [])"
    by (simp add: scenario_extract)
  have b: "parse_kata_deploy_values (scenario_world Missing (Loaded scenario_tree) None)
             (YStr ''unknown'') (Some [''env.hostOS''])
           = ([PrintFetching (YStr ''unknown'')], Inr [debug_option])"
    by (rule scenario_parse)
  have c: "debug_option \<in> set [debug_option]" by simp
  from extracted_options_are_leaves[of debug_option "[''env.hostOS'']" scenario_tree "''''"
      "scenario_world Missing (Loaded scenario_tree) None" "YStr ''unknown''"
      "Some [''env.hostOS'']" "[PrintFetching (YStr ''unknown'')]" "[debug_option]" debug_option]
    a b c
  show ?thesis by blast
qed

subsection \<open>C9: the version label\<close>




subsection \<open>C10: a root that is no mapping\<close>

text \<open>
  C10. If the value loaded from the upstream values file is not a mapping, extraction
  returns the empty list without an error, and the run is to go on and report on zero
  options. The extraction does return the empty list; the run then reaches
  \<^verbatim>\<open>generate_report\<close> with two empty lists, where the division raises
  \<^verbatim>\<open>ZeroDivisionError\<close>, so no report is printed or saved.
\<close>

theorem empty_values_file_run_raises:
  "extract_options [''env.hostOS''] YNone '''' [] = [] \<and>
   main (scenario_world Missing (Loaded YNone) None) text_args
   = ([PrintValidating (YStr ''unknown''), PrintParsing, PrintExcluding [''env.hostOS''],
       PrintFetching (YStr ''unknown''), PrintFound 0, PrintChecking ''kata-as-coco-runtime''],
      Raised ZeroDivisionError)"
proof -
  have e: "extract_options [''env.hostOS''] YNone '''' [] = []"
    by (simp add: extract_options_leaf)
  have p: "parse_kata_deploy_values (scenario_world Missing (Loaded YNone) None) (YStr ''unknown'')
             (Some [''env.hostOS'']) = ([PrintFetching (YStr ''unknown'')], Inr [])"
    unfolding parse_kata_deploy_values_def
    by (simp add: e scenario_world_def fetch_github_readme_def)
  from main_report_raises[OF scenario_version p] e show ?thesis by simp
qed

end
